theory Spec2Isabelle
  imports Main
begin

section \<open>The newsletter service of the Equora.AI backend\<close>

text \<open>
  This theory embeds \<^verbatim>\<open>src/services/newsletterService.js\<close>: the subscriber file, the
  three subscription operations (\<^verbatim>\<open>subscribeNewsletter\<close>, \<^verbatim>\<open>unsubscribeNewsletter\<close>,
  \<^verbatim>\<open>getNewsletterSubscribers\<close>) and the two mail paths (\<^verbatim>\<open>sendWelcomeEmail\<close>,
  \<^verbatim>\<open>sendNewsletter\<close>). Everything the JavaScript does to its surroundings is explicit
  state: the JSON file, the process environment, the mail transport and the trace of
  what was sent, slept and written to \<^verbatim>\<open>console.error\<close>.
\<close>

subsection \<open>Subscriber objects\<close>

text \<open>
  A subscriber is a plain JavaScript object read back from JSON, so any field may be
  missing: \<open>None\<close> is the absent (or \<^verbatim>\<open>undefined\<close>) field, which \<^verbatim>\<open>JSON.stringify\<close>
  drops. The only field the code compares against a literal of another type is
  \<^verbatim>\<open>isActive\<close> (\<^verbatim>\<open>sub.isActive !== false\<close>), hence it holds an arbitrary JSON value.
  Timestamps are the clock reading in milliseconds; \<^verbatim>\<open>toISOString\<close> only renders it.
\<close>

datatype jsval = JUndefined | JNull | JBool bool | JNum int | JStr string

type_synonym timestamp = nat

record subscriber =
  sub_id :: "string option"
  email :: string
  name :: "string option"
  topics :: "string list option"
  sources :: "string list option"
  frequency :: "string option"
  isActive :: jsval
  createdAt :: "timestamp option"
  updatedAt :: "timestamp option"

text \<open>The destructured argument object of \<^verbatim>\<open>subscribeNewsletter\<close>.\<close>

record subscribe_params =
  p_email :: string
  p_name :: "string option"
  p_topics :: "string list option"
  p_sources :: "string list option"
  p_frequency :: "string option"

text \<open>The object literal returned by \<^verbatim>\<open>unsubscribeNewsletter\<close>.\<close>

record unsubscribe_result =
  success :: bool
  message :: string

subsection \<open>The surroundings of the service\<close>

text \<open>
  A call of \<^verbatim>\<open>transporter.sendMail\<close> raced against the 30 second timer settles in one
  of three ways: the callback reports a message id, the callback reports an error, or
  the timer fires first.
\<close>

datatype outcome = Delivered string | Rejected string | NoReply

datatype event = MailSent string outcome | Slept nat | ConsoleError string

datatype error = StorageError | TransportError string | TimeoutError

text \<open>
  \<^item> \<open>subscribers_file\<close>: the parsed content of \<^verbatim>\<open>newsletter-subscribers.json\<close>; \<open>None\<close> when the
    file is missing or unreadable.
  \<^item> \<open>writable\<close>: whether \<^verbatim>\<open>fs.mkdir\<close> and \<^verbatim>\<open>fs.writeFile\<close> succeed.
  \<^item> \<open>test_mode\<close>, \<open>test_recipient\<close>: \<^verbatim>\<open>process.env.EMAIL_TEST_MODE\<close> and
    \<^verbatim>\<open>process.env.EMAIL_TEST_RECIPIENT\<close>.
  \<^item> \<open>digest\<close>: what \<^verbatim>\<open>generateNewsletterHtml(getMarketData())\<close> yields; \<open>None\<close> when
    either throws. The market data module is not part of the service and the HTML is
    opaque to it.
  \<^item> \<open>transporter_ok\<close>: whether \<^verbatim>\<open>createEmailTransporter\<close> returns rather than throws.
  \<^item> \<open>smtp\<close>: how the transport settles a send to an address, given everything that
    happened before; any behaviour of the mail provider is one such function.
  \<^item> \<open>trace\<close>: the sends, the pauses and the \<^verbatim>\<open>console.error\<close> lines so far, oldest
    first.
\<close>

record world =
  subscribers_file :: "subscriber list option"
  writable :: bool
  test_mode :: "string option"
  test_recipient :: "string option"
  digest :: "string option"
  transporter_ok :: bool
  smtp :: "event list \<Rightarrow> string \<Rightarrow> outcome"
  trace :: "event list"

definition emit :: "event \<Rightarrow> world \<Rightarrow> world" where
  "emit ev w = w\<lparr>trace := trace w @ [ev]\<rparr>"

definition console_error :: "string \<Rightarrow> world \<Rightarrow> world" where
  "console_error msg w = emit (ConsoleError msg) w"

text \<open>\<^verbatim>\<open>await new Promise(resolve => setTimeout(resolve, ms))\<close>\<close>

definition sleep :: "nat \<Rightarrow> world \<Rightarrow> world" where
  "sleep ms w = emit (Slept ms) w"

text \<open>
  The promise around \<^verbatim>\<open>transporter.sendMail(mailOptions, callback)\<close>. Of the message
  only the recipient matters here; sender, subject, body and headers are constant.
\<close>

definition sendMail :: "string \<Rightarrow> world \<Rightarrow> outcome \<times> world" where
  "sendMail rcpt w = (let r = smtp w (trace w) rcpt in (r, emit (MailSent rcpt r) w))"

subsection \<open>The subscriber file\<close>

text \<open>\<^verbatim>\<open>loadSubscribers\<close> catches every error and answers with the empty array.\<close>

definition loadSubscribers :: "world \<Rightarrow> subscriber list" where
  "loadSubscribers w = (case subscribers_file w of None \<Rightarrow> [] | Some subscribers \<Rightarrow> subscribers)"

text \<open>\<^verbatim>\<open>saveSubscribers\<close> replaces the whole file, or throws.\<close>

definition saveSubscribers :: "subscriber list \<Rightarrow> world \<Rightarrow> error + world" where
  "saveSubscribers subscribers w =
     (if writable w then Inr (w\<lparr>subscribers_file := Some subscribers\<rparr>) else Inl StorageError)"

text \<open>
  \<^verbatim>\<open>Array.prototype.findIndex\<close>: the first index whose element satisfies the predicate;
  the sentinel \<^verbatim>\<open>-1\<close> is \<open>None\<close>.
\<close>

fun findIndex :: "('a \<Rightarrow> bool) \<Rightarrow> 'a list \<Rightarrow> nat option" where
  "findIndex P [] = None"
| "findIndex P (x # xs) = (if P x then Some 0 else map_option Suc (findIndex P xs))"

text \<open>Decimal rendering of a number inside a template string.\<close>

fun dec :: "nat \<Rightarrow> string" where
  "dec n = (if n < 10 then [char_of (48 + n)]
            else dec (n div 10) @ [char_of (48 + n mod 10)])"

declare dec.simps [simp del]

subsection \<open>Mail paths\<close>

text \<open>
  \<^verbatim>\<open>sendWelcomeEmail\<close>. In test mode the message goes to the test recipient when one is
  configured and nowhere otherwise. A throw while the transporter is set up is caught
  inside and answered with \<^verbatim>\<open>false\<close>; the promise of the send itself is returned
  without \<^verbatim>\<open>await\<close>, so its rejection reaches the caller.
\<close>

definition sendWelcomeEmail :: "subscriber \<Rightarrow> world \<Rightarrow> (error + bool) \<times> world" where
  "sendWelcomeEmail subscription w =
     (case (if test_mode w = Some ''true''
            then (case test_recipient w of
                    None \<Rightarrow> None
                  | Some r \<Rightarrow> if r \<noteq> [] then Some (subscription\<lparr>email := r\<rparr>) else None)
            else Some subscription) of
        None \<Rightarrow> (Inr True, w)
      | Some subscription' \<Rightarrow>
          if \<not> transporter_ok w
          then (Inr False,
                console_error (''Error sending welcome email to '' @ email subscription' @ '':'')
                  (console_error (CHR 0x0A # ''======= EMAIL SENDING FAILED ======='')
                     (console_error ''Error creating email transporter:'' w)))
          else (case sendMail (email subscription') w of
                  (Delivered mid, w') \<Rightarrow> (Inr True, w')
                | (Rejected diag, w') \<Rightarrow>
                    (Inl (TransportError diag), console_error ''Error sending welcome email:'' w')
                | (NoReply, w') \<Rightarrow>
                    (Inl TimeoutError,
                     console_error (''Email sending timed out for '' @ email subscription') w')))"

text \<open>
  One round of the \<^verbatim>\<open>for (const subscriber of subscribers)\<close> loop of
  \<^verbatim>\<open>sendNewsletter\<close>: the send and the one second pause sit in the same \<^verbatim>\<open>try\<close> block,
  the \<^verbatim>\<open>catch\<close> only logs.
\<close>

definition send_one :: "subscriber \<Rightarrow> world \<Rightarrow> world" where
  "send_one subscriber w =
     (case sendMail (email subscriber) w of
        (Delivered mid, w') \<Rightarrow> sleep 1000 w'
      | (Rejected diag, w') \<Rightarrow>
          console_error (''Error sending newsletter to '' @ email subscriber @ '':'')
            (console_error (''Failed to send newsletter to '' @ email subscriber @ '':'') w')
      | (NoReply, w') \<Rightarrow>
          console_error (''Error sending newsletter to '' @ email subscriber @ '':'')
            (console_error (''Email sending timed out for '' @ email subscriber) w'))"

fun send_loop :: "subscriber list \<Rightarrow> world \<Rightarrow> world" where
  "send_loop [] w = w"
| "send_loop (subscriber # rest) w = send_loop rest (send_one subscriber w)"

subsection \<open>Subscription operations\<close>

text \<open>
  \<^verbatim>\<open>subscribeNewsletter\<close>. The two clock reads of a call are its first two arguments:
  \<open>ts\<close> is \<^verbatim>\<open>new Date().toISOString()\<close>, \<open>ms\<close> is \<^verbatim>\<open>Date.now()\<close>. The defaults of
  the destructured parameters (\<^verbatim>\<open>topics = []\<close>, \<^verbatim>\<open>sources = []\<close>,
  \<^verbatim>\<open>frequency = "daily"\<close>) apply to absent fields.
\<close>

definition arg_topics :: "subscribe_params \<Rightarrow> string list" where
  "arg_topics p = (case p_topics p of None \<Rightarrow> [] | Some t \<Rightarrow> t)"

definition arg_sources :: "subscribe_params \<Rightarrow> string list" where
  "arg_sources p = (case p_sources p of None \<Rightarrow> [] | Some s \<Rightarrow> s)"

definition arg_frequency :: "subscribe_params \<Rightarrow> string" where
  "arg_frequency p = (case p_frequency p of None \<Rightarrow> ''daily'' | Some f \<Rightarrow> f)"

text \<open>
  The object literal of the update branch: the spread of the stored record, then the
  five fields written over it.
\<close>

definition updated_subscription :: "timestamp \<Rightarrow> subscribe_params \<Rightarrow> subscriber \<Rightarrow> subscriber" where
  "updated_subscription ts p existing =
     existing\<lparr>name := p_name p, topics := Some (arg_topics p), sources := Some (arg_sources p),
              frequency := Some (arg_frequency p), updatedAt := Some ts\<rparr>"

text \<open>The object literal of the create branch.\<close>

definition new_subscription :: "timestamp \<Rightarrow> nat \<Rightarrow> subscribe_params \<Rightarrow> subscriber" where
  "new_subscription ts ms p =
     \<lparr>sub_id = Some (''sub_'' @ dec ms), email = p_email p, name = p_name p,
      topics = Some (arg_topics p), sources = Some (arg_sources p),
      frequency = Some (arg_frequency p), isActive = JBool True,
      createdAt = Some ts, updatedAt = Some ts\<rparr>"

text \<open>
  An error of the welcome mail is caught and logged; any other error is logged and
  thrown again. The welcome mail is attempted only in the create branch, after the
  file was written.
\<close>

definition subscribeNewsletter ::
  "timestamp \<Rightarrow> nat \<Rightarrow> subscribe_params \<Rightarrow> world \<Rightarrow> (error + subscriber) \<times> world" where
  "subscribeNewsletter ts ms p w =
     (let subscribers = loadSubscribers w
      in case findIndex (\<lambda>sub. email sub = p_email p) subscribers of
           Some existingIndex \<Rightarrow>
             (let subscription = updated_subscription ts p (subscribers ! existingIndex)
              in case saveSubscribers (subscribers[existingIndex := subscription]) w of
                   Inl err \<Rightarrow> (Inl err, console_error ''Error in subscription process:'' w)
                 | Inr w' \<Rightarrow> (Inr subscription, w'))
         | None \<Rightarrow>
             (let subscription = new_subscription ts ms p
              in case saveSubscribers (subscribers @ [subscription]) w of
                   Inl err \<Rightarrow> (Inl err, console_error ''Error in subscription process:'' w)
                 | Inr w' \<Rightarrow>
                     (case sendWelcomeEmail subscription w' of
                        (Inl err, w'') \<Rightarrow>
                          (Inr subscription,
                           console_error
                             (''Failed to send welcome email to '' @ p_email p @ '':'') w'')
                      | (Inr done, w'') \<Rightarrow> (Inr subscription, w''))))"

text \<open>
  \<^verbatim>\<open>unsubscribeNewsletter\<close>; \<open>ts\<close> is its clock read. An unknown address is answered
  with a result object, not with an exception.
\<close>

definition unsubscribeNewsletter ::
  "timestamp \<Rightarrow> string \<Rightarrow> world \<Rightarrow> (error + unsubscribe_result) \<times> world" where
  "unsubscribeNewsletter ts addr w =
     (let subscribers = loadSubscribers w
      in case findIndex (\<lambda>sub. email sub = addr) subscribers of
           None \<Rightarrow>
             (Inr \<lparr>success = False, message = ''Email not found in subscribers list''\<rparr>, w)
         | Some index \<Rightarrow>
             (case saveSubscribers
                     (subscribers[index :=
                        (subscribers ! index)\<lparr>isActive := JBool False, updatedAt := Some ts\<rparr>]) w of
                Inl err \<Rightarrow> (Inl err, w)
              | Inr w' \<Rightarrow> (Inr \<lparr>success = True, message = ''Successfully unsubscribed''\<rparr>, w')))"

text \<open>\<^verbatim>\<open>getNewsletterSubscribers\<close>\<close>

definition getNewsletterSubscribers :: "bool \<Rightarrow> world \<Rightarrow> subscriber list" where
  "getNewsletterSubscribers activeOnly w =
     (let subscribers = loadSubscribers w
      in if activeOnly then filter (\<lambda>sub. isActive sub \<noteq> JBool False) subscribers
         else subscribers)"

text \<open>
  \<^verbatim>\<open>sendNewsletter\<close>. \<open>requested\<close> is the array \<^verbatim>\<open>subscribers\<close> before the test-mode
  switch: the active subscribers, narrowed to one address when \<^verbatim>\<open>specificEmail\<close> is
  truthy. The function answers \<^verbatim>\<open>true\<close> or \<^verbatim>\<open>false\<close> and nothing else.
\<close>

definition requested :: "string option \<Rightarrow> world \<Rightarrow> subscriber list" where
  "requested specificEmail w =
     (let allSubscribers = getNewsletterSubscribers True w
      in case specificEmail of
           None \<Rightarrow> allSubscribers
         | Some e \<Rightarrow> if e \<noteq> [] then filter (\<lambda>sub. email sub = e) allSubscribers
                     else allSubscribers)"

definition test_recipient_object :: "string \<Rightarrow> subscriber" where
  "test_recipient_object r =
     \<lparr>sub_id = None, email = r, name = Some ''Test Recipient'', topics = None,
      sources = None, frequency = None, isActive = JBool True, createdAt = None,
      updatedAt = None\<rparr>"

definition sendNewsletter :: "string option \<Rightarrow> world \<Rightarrow> bool \<times> world" where
  "sendNewsletter specificEmail w =
     (let subscribers = requested specificEmail w
      in if subscribers = [] then (True, w)
         else case (if test_mode w = Some ''true''
                    then (case test_recipient w of
                            None \<Rightarrow> None
                          | Some r \<Rightarrow> if r \<noteq> [] then Some [test_recipient_object r] else None)
                    else Some subscribers) of
                None \<Rightarrow> (True, w)
              | Some subscribers' \<Rightarrow>
                  (case digest w of
                     None \<Rightarrow> (False, console_error ''Error in newsletter sending process:'' w)
                   | Some newsletterHtml \<Rightarrow>
                       if \<not> transporter_ok w
                       then (False,
                             console_error ''Error in newsletter sending process:''
                               (console_error ''Error creating email transporter:'' w))
                       else (True, send_loop subscribers' w)))"

subsection \<open>Reading a trace\<close>

text \<open>The recipients of the transport calls of a trace, in order.\<close>

fun sent_to :: "event list \<Rightarrow> string list" where
  "sent_to [] = []"
| "sent_to (MailSent rcpt r # evs) = rcpt # sent_to evs"
| "sent_to (ev # evs) = sent_to evs"

text \<open>A send failed when the transport reported an error or the timer fired.\<close>

fun failed :: "outcome \<Rightarrow> bool" where
  "failed (Delivered mid) = False"
| "failed (Rejected diag) = True"
| "failed NoReply = True"

fun delivered_to :: "event list \<Rightarrow> string list" where
  "delivered_to [] = []"
| "delivered_to (MailSent rcpt r # evs) =
     (if failed r then delivered_to evs else rcpt # delivered_to evs)"
| "delivered_to (ev # evs) = delivered_to evs"

fun failed_to :: "event list \<Rightarrow> string list" where
  "failed_to [] = []"
| "failed_to (MailSent rcpt r # evs) =
     (if failed r then rcpt # failed_to evs else failed_to evs)"
| "failed_to (ev # evs) = failed_to evs"

text \<open>What a call added to the trace.\<close>

definition new_events :: "world \<Rightarrow> world \<Rightarrow> event list" where
  "new_events w w' = drop (length (trace w)) (trace w')"

text \<open>The store invariant of the data model: no two records share an address.\<close>

definition one_per_email :: "subscriber list \<Rightarrow> bool" where
  "one_per_email subscribers = distinct (map email subscribers)"

subsection \<open>Sample data\<close>

text \<open>
  A store of six records, five of them deliverable: one record carries no
  \<^verbatim>\<open>isActive\<close> field, one was unsubscribed. The transports either deliver everything,
  reject one address, or never call back.
\<close>

definition sample_subscriber :: "nat \<Rightarrow> string \<Rightarrow> jsval \<Rightarrow> subscriber" where
  "sample_subscriber n addr active =
     \<lparr>sub_id = Some (''sub_'' @ dec n), email = addr, name = None, topics = Some [],
      sources = Some [], frequency = Some ''weekly'', isActive = active,
      createdAt = Some n, updatedAt = Some n\<rparr>"

definition sample_store :: "subscriber list" where
  "sample_store =
     [sample_subscriber 1 ''alice@example.com'' (JBool True),
      sample_subscriber 2 ''bob@example.com'' JUndefined,
      sample_subscriber 3 ''carol@example.com'' (JBool True),
      sample_subscriber 4 ''frank@example.com'' (JBool False),
      sample_subscriber 5 ''dave@example.com'' (JBool True),
      sample_subscriber 6 ''erin@example.com'' (JBool True)]"

definition pair_store :: "subscriber list" where
  "pair_store =
     [sample_subscriber 1 ''alice@example.com'' (JBool True),
      sample_subscriber 2 ''bob@example.com'' (JBool True)]"

definition always_delivers :: "event list \<Rightarrow> string \<Rightarrow> outcome" where
  "always_delivers history rcpt = Delivered ''<1@smtp>''"

definition rejects :: "string \<Rightarrow> event list \<Rightarrow> string \<Rightarrow> outcome" where
  "rejects bad history rcpt =
     (if rcpt = bad then Rejected ''550 mailbox unavailable'' else Delivered ''<1@smtp>'')"

definition never_replies :: "event list \<Rightarrow> string \<Rightarrow> outcome" where
  "never_replies history rcpt = NoReply"

definition sample_world ::
  "subscriber list \<Rightarrow> (event list \<Rightarrow> string \<Rightarrow> outcome) \<Rightarrow> world" where
  "sample_world subs f =
     \<lparr>subscribers_file = Some subs, writable = True, test_mode = None, test_recipient = None,
      digest = Some ''<html>'', transporter_ok = True, smtp = f, trace = []\<rparr>"

definition test_world :: "subscriber list \<Rightarrow> world" where
  "test_world subs =
     (sample_world subs always_delivers)
       \<lparr>test_mode := Some ''true'', test_recipient := Some ''qa@example.com''\<rparr>"

definition zoe_first :: subscribe_params where
  "zoe_first = \<lparr>p_email = ''zoe@example.com'', p_name = Some ''Zoe'',
                p_topics = Some [''tech''], p_sources = None, p_frequency = Some ''weekly''\<rparr>"

definition zoe_second :: subscribe_params where
  "zoe_second = \<lparr>p_email = ''zoe@example.com'', p_name = Some ''Zoe Q'',
                 p_topics = Some [''energy'', ''banks''], p_sources = Some [''news''],
                 p_frequency = Some ''monthly''\<rparr>"

lemmas sample_defs = sample_subscriber_def sample_store_def pair_store_def always_delivers_def
  rejects_def never_replies_def sample_world_def test_world_def zoe_first_def zoe_second_def

lemmas model_defs = loadSubscribers_def saveSubscribers_def getNewsletterSubscribers_def
  requested_def sendNewsletter_def send_one_def sendMail_def emit_def console_error_def
  sleep_def new_events_def one_per_email_def test_recipient_object_def
  unsubscribeNewsletter_def subscribeNewsletter_def sendWelcomeEmail_def
  new_subscription_def updated_subscription_def arg_topics_def arg_sources_def
  arg_frequency_def Let_def

section \<open>Auxiliary facts\<close>

subsection \<open>Searching and updating the array\<close>

lemma findIndex_None_iff: "findIndex P xs = None \<longleftrightarrow> (\<forall>x \<in> set xs. \<not> P x)"
  by (induction xs) auto

lemma findIndex_Some: "findIndex P xs = Some i \<Longrightarrow> i < length xs \<and> P (xs ! i)"
  by (induction xs arbitrary: i) (auto split: if_splits)

lemma findIndex_present:
  assumes "e \<in> email ` set xs"
  obtains i where "findIndex (\<lambda>sub. email sub = e) xs = Some i"
  using assms
  by (cases "findIndex (\<lambda>sub. email sub = e) xs") (auto simp: findIndex_None_iff)

lemma map_email_update:
  "i < length xs \<Longrightarrow> email s = email (xs ! i) \<Longrightarrow> map email (xs[i := s]) = map email xs"
  by (simp add: map_update list_update_same_conv)

lemma filter_update_unique:
  "distinct (map email xs) \<Longrightarrow> i < length xs \<Longrightarrow> email (xs ! i) = e \<Longrightarrow> email s = e
   \<Longrightarrow> filter (\<lambda>sub. email sub = e) (xs[i := s]) = [s]"
proof (induction xs arbitrary: i)
  case Nil
  then show ?case by simp
next
  case (Cons x xs)
  show ?case
  proof (cases i)
    case 0
    with Cons.prems have "\<forall>y \<in> set xs. email y \<noteq> e"
      by (auto simp: image_iff)
    then have "filter (\<lambda>sub. email sub = e) xs = []"
      by (simp add: filter_empty_conv)
    with 0 Cons.prems show ?thesis by simp
  next
    case (Suc k)
    with Cons.prems have "email x \<noteq> e"
      by (auto simp: image_iff dest: nth_mem)
    moreover from Suc Cons.prems have "filter (\<lambda>sub. email sub = e) (xs[k := s]) = [s]"
      by (intro Cons.IH) auto
    ultimately show ?thesis using Suc by simp
  qed
qed

lemma only_record:
  assumes "filter (\<lambda>sub. email sub = e) xs = [s]" and "x \<in> set xs" and "email x = e"
  shows "x = s"
proof -
  from assms(2,3) have "x \<in> set (filter (\<lambda>sub. email sub = e) xs)" by simp
  with assms(1) show ?thesis by simp
qed

subsection \<open>Traces\<close>

lemma sent_to_append: "sent_to (xs @ ys) = sent_to xs @ sent_to ys"
  by (induction xs rule: sent_to.induct) auto

lemma delivered_to_append: "delivered_to (xs @ ys) = delivered_to xs @ delivered_to ys"
  by (induction xs rule: delivered_to.induct) auto

lemma failed_to_append: "failed_to (xs @ ys) = failed_to xs @ failed_to ys"
  by (induction xs rule: failed_to.induct) auto

lemma new_events_extend: "trace w' = trace w @ evs \<Longrightarrow> new_events w w' = evs"
  by (simp add: new_events_def)

lemma new_events_self [simp]: "new_events w w = []"
  by (simp add: new_events_def)

lemma emit_simps [simp]:
  "subscribers_file (emit ev w) = subscribers_file w"
  "writable (emit ev w) = writable w"
  "test_mode (emit ev w) = test_mode w"
  "test_recipient (emit ev w) = test_recipient w"
  "digest (emit ev w) = digest w"
  "transporter_ok (emit ev w) = transporter_ok w"
  "smtp (emit ev w) = smtp w"
  "trace (emit ev w) = trace w @ [ev]"
  by (simp_all add: emit_def)

subsection \<open>The paths through the subscription operations\<close>

lemma loadSubscribers_emit [simp]: "loadSubscribers (emit ev w) = loadSubscribers w"
  by (simp add: loadSubscribers_def)

lemma loadSubscribers_saved [simp]:
  "loadSubscribers (w\<lparr>subscribers_file := Some subs\<rparr>) = subs"
  by (simp add: loadSubscribers_def)

lemma sendWelcomeEmail_file:
  "sendWelcomeEmail s w = (r, w') \<Longrightarrow> subscribers_file w' = subscribers_file w"
  by (auto simp: sendWelcomeEmail_def sendMail_def console_error_def Let_def
      split: option.splits outcome.splits if_splits)

lemma email_updated [simp]: "email (updated_subscription ts p s) = email s"
  by (simp add: updated_subscription_def)

lemma email_new [simp]: "email (new_subscription ts ms p) = p_email p"
  by (simp add: new_subscription_def)

lemma subscribe_unwritable:
  "\<not> writable w \<Longrightarrow> subscribeNewsletter ts ms p w =
     (Inl StorageError, console_error ''Error in subscription process:'' w)"
  by (simp add: subscribeNewsletter_def saveSubscribers_def Let_def split: option.splits)

lemma subscribe_existing:
  assumes "findIndex (\<lambda>sub. email sub = p_email p) (loadSubscribers w) = Some i"
    and "writable w"
  shows "subscribeNewsletter ts ms p w =
     (Inr (updated_subscription ts p (loadSubscribers w ! i)),
      w\<lparr>subscribers_file :=
          Some ((loadSubscribers w)[i := updated_subscription ts p (loadSubscribers w ! i)])\<rparr>)"
  using assms by (simp add: subscribeNewsletter_def saveSubscribers_def Let_def)

lemma subscribe_fresh:
  assumes "findIndex (\<lambda>sub. email sub = p_email p) (loadSubscribers w) = None"
    and "writable w"
  shows "fst (subscribeNewsletter ts ms p w) = Inr (new_subscription ts ms p)"
    and "subscribers_file (snd (subscribeNewsletter ts ms p w)) =
           Some (loadSubscribers w @ [new_subscription ts ms p])"
  using assms
  by (auto simp: subscribeNewsletter_def saveSubscribers_def Let_def console_error_def
      split: prod.splits sum.splits dest: sendWelcomeEmail_file)

lemma unsubscribe_store:
  assumes "findIndex (\<lambda>sub. email sub = addr) (loadSubscribers w) = Some i" and "writable w"
  shows "unsubscribeNewsletter ts addr w =
           (Inr \<lparr>success = True, message = ''Successfully unsubscribed''\<rparr>,
            w\<lparr>subscribers_file := Some ((loadSubscribers w)
                [i := (loadSubscribers w ! i)\<lparr>isActive := JBool False, updatedAt := Some ts\<rparr>])\<rparr>)"
  using assms by (simp add: unsubscribeNewsletter_def saveSubscribers_def Let_def)

lemma unsubscribe_unwritable:
  assumes "findIndex (\<lambda>sub. email sub = addr) (loadSubscribers w) = Some i" and "\<not> writable w"
  shows "unsubscribeNewsletter ts addr w = (Inl StorageError, w)"
  using assms by (simp add: unsubscribeNewsletter_def saveSubscribers_def Let_def)

lemma unsubscribe_emails:
  "map email (loadSubscribers (snd (unsubscribeNewsletter ts addr w))) =
     map email (loadSubscribers w)"
proof (cases "findIndex (\<lambda>sub. email sub = addr) (loadSubscribers w)")
  case None
  then show ?thesis by (simp add: unsubscribeNewsletter_def)
next
  case (Some i)
  then have "i < length (loadSubscribers w)" by (simp add: findIndex_Some)
  with Some show ?thesis
    by (cases "writable w")
      (simp_all add: unsubscribe_store unsubscribe_unwritable map_email_update)
qed

lemma subscribe_emails:
  "map email (loadSubscribers (snd (subscribeNewsletter ts ms p w))) =
     (if p_email p \<in> email ` set (loadSubscribers w) \<or> \<not> writable w
      then map email (loadSubscribers w)
      else map email (loadSubscribers w) @ [p_email p])"
proof (cases "writable w")
  case False
  then show ?thesis by (simp add: subscribe_unwritable console_error_def)
next
  case True
  show ?thesis
  proof (cases "findIndex (\<lambda>sub. email sub = p_email p) (loadSubscribers w)")
    case None
    then have "p_email p \<notin> email ` set (loadSubscribers w)"
      by (auto simp: findIndex_None_iff)
    with None True subscribe_fresh(2)[OF None True, of ts ms] show ?thesis
      by (simp add: loadSubscribers_def)
  next
    case (Some i)
    then have i: "i < length (loadSubscribers w)" "email (loadSubscribers w ! i) = p_email p"
      by (auto dest: findIndex_Some)
    then have "p_email p \<in> email ` set (loadSubscribers w)"
      by (metis image_eqI nth_mem)
    with Some i True show ?thesis
      by (simp add: subscribe_existing map_email_update)
  qed
qed

lemma subscribe_keeps_one_per_email:
  "one_per_email (loadSubscribers w) \<Longrightarrow>
   one_per_email (loadSubscribers (snd (subscribeNewsletter ts ms p w)))"
  by (auto simp: one_per_email_def subscribe_emails)

section \<open>The subscriber store\<close>

text \<open>
  C10. With \<^verbatim>\<open>activeOnly = true\<close>, \<^verbatim>\<open>getNewsletterSubscribers\<close> keeps a stored record
  exactly when its \<^verbatim>\<open>isActive\<close> field is not the value \<^verbatim>\<open>false\<close>; in particular a
  record without the field is listed as active.
\<close>

theorem active_list_keeps_unflagged:
  assumes "sub \<in> set (loadSubscribers w)"
  shows "(sub \<in> set (getNewsletterSubscribers True w) \<longleftrightarrow> isActive sub \<noteq> JBool False)
       \<and> (isActive sub = JUndefined \<longrightarrow> sub \<in> set (getNewsletterSubscribers True w))"
  using assms by (auto simp: getNewsletterSubscribers_def)

theorem active_list_keeps_unflagged_witness:
  "sample_subscriber 2 ''bob@example.com'' JUndefined
     \<in> set (getNewsletterSubscribers True (sample_world sample_store always_delivers))"
proof -
  have "sample_subscriber 2 ''bob@example.com'' JUndefined
          \<in> set (loadSubscribers (sample_world sample_store always_delivers))"
    by (simp add: loadSubscribers_def sample_world_def sample_store_def)
  from active_list_keeps_unflagged[OF this] show ?thesis
    by (simp add: sample_subscriber_def)
qed

text \<open>
  C7. When no stored record, active or not, carries the address, \<^verbatim>\<open>unsubscribeNewsletter\<close>
  answers with the not-found result and leaves everything as it was: the file is not
  written.
\<close>

theorem unsubscribe_unknown_email:
  assumes "addr \<notin> email ` set (loadSubscribers w)"
  shows "unsubscribeNewsletter ts addr w =
           (Inr \<lparr>success = False, message = ''Email not found in subscribers list''\<rparr>, w)"
proof -
  from assms have "findIndex (\<lambda>sub. email sub = addr) (loadSubscribers w) = None"
    by (auto simp: findIndex_None_iff)
  then show ?thesis by (simp add: unsubscribeNewsletter_def)
qed

theorem unsubscribe_unknown_email_witness:
  "unsubscribeNewsletter 42 ''nobody@x.com'' (sample_world [] always_delivers) =
     (Inr \<lparr>success = False, message = ''Email not found in subscribers list''\<rparr>,
      sample_world [] always_delivers)"
proof -
  have "''nobody@x.com'' \<notin> email ` set (loadSubscribers (sample_world [] always_delivers))"
    by (simp add: loadSubscribers_def sample_world_def)
  from unsubscribe_unknown_email[OF this] show ?thesis .
qed

text \<open>
  C8. On a store that holds the address (once, as the store invariant demands) and can
  be written, \<^verbatim>\<open>unsubscribeNewsletter\<close> succeeds and keeps the record: the list of
  active subscribers no longer has the address, the full list has it exactly once,
  with \<^verbatim>\<open>isActive\<close> false and \<^verbatim>\<open>updatedAt\<close> set to the time of the call; no record is
  added or removed.
\<close>

theorem soft_delete_visibility:
  assumes "one_per_email (loadSubscribers w)"
    and "addr \<in> email ` set (loadSubscribers w)"
    and "writable w"
  shows "fst (unsubscribeNewsletter ts addr w) =
           Inr \<lparr>success = True, message = ''Successfully unsubscribed''\<rparr>
       \<and> filter (\<lambda>sub. email sub = addr)
           (getNewsletterSubscribers True (snd (unsubscribeNewsletter ts addr w))) = []
       \<and> map (\<lambda>sub. (isActive sub, updatedAt sub))
           (filter (\<lambda>sub. email sub = addr)
              (getNewsletterSubscribers False (snd (unsubscribeNewsletter ts addr w)))) =
           [(JBool False, Some ts)]
       \<and> map email (loadSubscribers (snd (unsubscribeNewsletter ts addr w))) =
           map email (loadSubscribers w)"
proof -
  let ?old = "loadSubscribers w"
  from assms(2) obtain i where i: "findIndex (\<lambda>sub. email sub = addr) ?old = Some i"
    by (rule findIndex_present)
  then have bound: "i < length ?old" and at: "email (?old ! i) = addr"
    by (auto dest: findIndex_Some)
  let ?s = "(?old ! i)\<lparr>isActive := JBool False, updatedAt := Some ts\<rparr>"
  let ?new = "?old[i := ?s]"
  have run: "unsubscribeNewsletter ts addr w =
      (Inr \<lparr>success = True, message = ''Successfully unsubscribed''\<rparr>,
       w\<lparr>subscribers_file := Some ?new\<rparr>)"
    using i assms(3) by (rule unsubscribe_store)
  have uniq: "filter (\<lambda>sub. email sub = addr) ?new = [?s]"
    using assms(1) bound at by (intro filter_update_unique) (simp_all add: one_per_email_def)
  have hidden: "filter (\<lambda>sub. email sub = addr)
      (filter (\<lambda>sub. isActive sub \<noteq> JBool False) ?new) = []"
  proof -
    have "filter (\<lambda>sub. isActive sub \<noteq> JBool False)
        (filter (\<lambda>sub. email sub = addr) ?new) = []"
      by (simp only: uniq) simp
    then show ?thesis by (simp add: conj_commute)
  qed
  have same: "map email ?new = map email ?old"
    using bound by (simp add: map_email_update)
  from run hidden uniq same show ?thesis
    by (simp add: getNewsletterSubscribers_def)
qed

theorem soft_delete_visibility_witness:
  "filter (\<lambda>sub. email sub = ''alice@example.com'')
     (getNewsletterSubscribers True
        (snd (unsubscribeNewsletter 99 ''alice@example.com''
                (sample_world sample_store always_delivers)))) = []
   \<and> map (\<lambda>sub. (isActive sub, updatedAt sub))
       (filter (\<lambda>sub. email sub = ''alice@example.com'')
          (getNewsletterSubscribers False
             (snd (unsubscribeNewsletter 99 ''alice@example.com''
                     (sample_world sample_store always_delivers))))) =
     [(JBool False, Some 99)]"
proof -
  let ?w = "sample_world sample_store always_delivers"
  have a: "one_per_email (loadSubscribers ?w)"
    by (simp add: one_per_email_def loadSubscribers_def sample_defs)
  have b: "''alice@example.com'' \<in> email ` set (loadSubscribers ?w)"
    by (simp add: loadSubscribers_def sample_defs)
  have c: "writable ?w" by (simp add: sample_world_def)
  from soft_delete_visibility[OF a b c, of 99] show ?thesis by blast
qed

text \<open>
  C9. Both writing operations keep the invariant that no two records share an address.
  \<^verbatim>\<open>subscribeNewsletter\<close> leaves the sequence of stored addresses as it is when the
  address is already there (or the file cannot be written) and otherwise appends the
  one new address; \<^verbatim>\<open>unsubscribeNewsletter\<close> never changes that sequence.
\<close>

theorem one_per_email_preserved:
  assumes "one_per_email (loadSubscribers w)"
  shows "one_per_email (loadSubscribers (snd (subscribeNewsletter ts ms p w)))
       \<and> one_per_email (loadSubscribers (snd (unsubscribeNewsletter ts' addr w)))
       \<and> map email (loadSubscribers (snd (subscribeNewsletter ts ms p w))) =
           (if p_email p \<in> email ` set (loadSubscribers w) \<or> \<not> writable w
            then map email (loadSubscribers w)
            else map email (loadSubscribers w) @ [p_email p])
       \<and> map email (loadSubscribers (snd (unsubscribeNewsletter ts' addr w))) =
           map email (loadSubscribers w)"
proof -
  have "one_per_email (loadSubscribers (snd (subscribeNewsletter ts ms p w)))"
    using assms by (rule subscribe_keeps_one_per_email)
  moreover have "one_per_email (loadSubscribers (snd (unsubscribeNewsletter ts' addr w)))"
    using assms by (simp add: one_per_email_def unsubscribe_emails)
  ultimately show ?thesis
    by (simp add: subscribe_emails unsubscribe_emails)
qed

theorem one_per_email_preserved_witness:
  "one_per_email (loadSubscribers (snd (subscribeNewsletter 10 11 zoe_first
       (sample_world sample_store always_delivers))))
   \<and> one_per_email (loadSubscribers (snd (unsubscribeNewsletter 12 ''bob@example.com''
       (sample_world sample_store always_delivers))))
   \<and> map email (loadSubscribers (snd (subscribeNewsletter 10 11 zoe_first
       (sample_world sample_store always_delivers)))) =
     [''alice@example.com'', ''bob@example.com'', ''carol@example.com'', ''frank@example.com'',
      ''dave@example.com'', ''erin@example.com'', ''zoe@example.com'']"
proof -
  let ?w = "sample_world sample_store always_delivers"
  have "one_per_email (loadSubscribers ?w)"
    by (simp add: one_per_email_def loadSubscribers_def sample_defs)
  from one_per_email_preserved[OF this, of 10 11 zoe_first 12 "''bob@example.com''"]
  show ?thesis
    by (simp add: loadSubscribers_def sample_defs)
qed

section \<open>Subscribing\<close>

text \<open>
  C5. Two successful calls of \<^verbatim>\<open>subscribeNewsletter\<close> with the same address, on a store
  that satisfies the invariant: afterwards the store holds exactly one record for the
  address, the one the second call returned. It is the record of the first call with
  \<^verbatim>\<open>name\<close>, \<^verbatim>\<open>topics\<close>, \<^verbatim>\<open>sources\<close> and \<^verbatim>\<open>frequency\<close> as the second call passed them
  (an absent \<^verbatim>\<open>topics\<close> or \<^verbatim>\<open>sources\<close> is the empty array, an absent \<^verbatim>\<open>frequency\<close> is
  \<^verbatim>\<open>"daily"\<close>) and
  \<^verbatim>\<open>updatedAt\<close> set to the second call's time; \<^verbatim>\<open>id\<close>, \<^verbatim>\<open>createdAt\<close> and \<^verbatim>\<open>isActive\<close>
  are those of the first call. The second call adds nothing to the trace: no welcome
  mail is sent.
\<close>

theorem subscribe_twice_one_record:
  assumes inv: "one_per_email (loadSubscribers w0)"
    and same: "p_email p2 = p_email p1"
    and first: "subscribeNewsletter ts1 ms1 p1 w0 = (Inr s1, w1)"
    and second: "subscribeNewsletter ts2 ms2 p2 w1 = (Inr s2, w2)"
  shows "filter (\<lambda>sub. email sub = p_email p1) (loadSubscribers w2) = [s2]
       \<and> s2 = s1\<lparr>name := p_name p2,
                 topics := Some (case p_topics p2 of None \<Rightarrow> [] | Some t \<Rightarrow> t),
                 sources := Some (case p_sources p2 of None \<Rightarrow> [] | Some s \<Rightarrow> s),
                 frequency := Some (case p_frequency p2 of None \<Rightarrow> ''daily'' | Some f \<Rightarrow> f),
                 updatedAt := Some ts2\<rparr>
       \<and> sub_id s2 = sub_id s1 \<and> createdAt s2 = createdAt s1 \<and> isActive s2 = isActive s1
       \<and> updatedAt s2 = Some ts2
       \<and> length (loadSubscribers w2) = length (loadSubscribers w1)
       \<and> trace w2 = trace w1"
proof -
  let ?e = "p_email p1"
  \<comment> \<open>after the first call the address is stored once, in the record the call returned\<close>
  have wr0: "writable w0"
    using first by (cases "writable w0") (simp_all add: subscribe_unwritable)
  have inv1: "one_per_email (loadSubscribers w1)"
    using subscribe_keeps_one_per_email[OF inv, of ts1 ms1 p1] first by simp
  have s1: "s1 \<in> set (loadSubscribers w1) \<and> email s1 = ?e"
  proof (cases "findIndex (\<lambda>sub. email sub = ?e) (loadSubscribers w0)")
    case None
    from subscribe_fresh[OF None wr0, of ts1 ms1] first show ?thesis
      by (auto simp: loadSubscribers_def)
  next
    case (Some i)
    then have "i < length (loadSubscribers w0)" "email (loadSubscribers w0 ! i) = ?e"
      by (auto dest: findIndex_Some)
    with subscribe_existing[OF Some wr0, of ts1 ms1] first show ?thesis
      by (auto simp: set_update_memI)
  qed
  \<comment> \<open>the second call finds that record\<close>
  from s1 same have "p_email p2 \<in> email ` set (loadSubscribers w1)"
    by force
  then obtain i where i: "findIndex (\<lambda>sub. email sub = p_email p2) (loadSubscribers w1) = Some i"
    by (rule findIndex_present)
  then have bound: "i < length (loadSubscribers w1)"
    and at: "email (loadSubscribers w1 ! i) = ?e"
    using same by (auto dest: findIndex_Some)
  have "filter (\<lambda>sub. email sub = ?e) (loadSubscribers w1) = [loadSubscribers w1 ! i]"
    using filter_update_unique[of "loadSubscribers w1" i ?e "loadSubscribers w1 ! i"]
      inv1 bound at by (simp add: one_per_email_def)
  then have found: "loadSubscribers w1 ! i = s1"
    using only_record[of ?e "loadSubscribers w1" "loadSubscribers w1 ! i" s1] s1 by simp
  have wr1: "writable w1"
    using second by (cases "writable w1") (simp_all add: subscribe_unwritable)
  from subscribe_existing[OF i wr1, of ts2 ms2] second found
  have s2: "s2 = updated_subscription ts2 p2 s1"
    and w2: "w2 = w1\<lparr>subscribers_file := Some ((loadSubscribers w1)[i := s2])\<rparr>"
    by simp_all
  have "filter (\<lambda>sub. email sub = ?e) ((loadSubscribers w1)[i := s2]) = [s2]"
    using inv1 bound at s2 s1
    by (intro filter_update_unique) (simp_all add: one_per_email_def)
  with s2 w2 show ?thesis
    by (simp add: updated_subscription_def arg_topics_def arg_sources_def arg_frequency_def)
qed

theorem subscribe_twice_one_record_witness:
  "filter (\<lambda>sub. email sub = ''zoe@example.com'')
     (loadSubscribers (snd (subscribeNewsletter 20 21 zoe_second
        (snd (subscribeNewsletter 10 11 zoe_first (sample_world sample_store always_delivers)))))) =
     [\<lparr>sub_id = Some (''sub_'' @ dec 11), email = ''zoe@example.com'', name = Some ''Zoe Q'',
       topics = Some [''energy'', ''banks''], sources = Some [''news''],
       frequency = Some ''monthly'', isActive = JBool True, createdAt = Some 10,
       updatedAt = Some 20\<rparr>]
   \<and> trace (snd (subscribeNewsletter 20 21 zoe_second
        (snd (subscribeNewsletter 10 11 zoe_first (sample_world sample_store always_delivers))))) =
     trace (snd (subscribeNewsletter 10 11 zoe_first (sample_world sample_store always_delivers)))"
proof -
  let ?w0 = "sample_world sample_store always_delivers"
  let ?w1 = "snd (subscribeNewsletter 10 11 zoe_first ?w0)"
  let ?s1 = "new_subscription 10 11 zoe_first"
  let ?w2 = "snd (subscribeNewsletter 20 21 zoe_second ?w1)"
  let ?s2 = "updated_subscription 20 zoe_second ?s1"
  have a: "one_per_email (loadSubscribers ?w0)"
    by (simp add: one_per_email_def loadSubscribers_def sample_defs)
  have b: "p_email zoe_second = p_email zoe_first"
    by (simp add: zoe_first_def zoe_second_def)
  have c: "subscribeNewsletter 10 11 zoe_first ?w0 = (Inr ?s1, ?w1)"
    by (simp add: model_defs sample_defs)
  have d: "subscribeNewsletter 20 21 zoe_second ?w1 = (Inr ?s2, ?w2)"
    by (simp add: model_defs sample_defs)
  from subscribe_twice_one_record[OF a b c d] show ?thesis
    by (simp add: new_subscription_def arg_topics_def arg_sources_def arg_frequency_def
        zoe_first_def zoe_second_def)
qed

text \<open>
  C6. A first subscription whose welcome mail fails, by a transport error or by the
  timeout: the call still returns the new record, and the file holds the old records
  followed by the new one.
\<close>

theorem welcome_failure_not_propagated:
  assumes fresh: "p_email p \<notin> email ` set (loadSubscribers w)"
    and run: "subscribeNewsletter ts ms p w = (res, w')"
    and sent: "MailSent rcpt r \<in> set (new_events w w')"
    and bad: "failed r"
  shows "res = Inr (new_subscription ts ms p)
       \<and> subscribers_file w' = Some (loadSubscribers w @ [new_subscription ts ms p])"
proof -
  have none: "findIndex (\<lambda>sub. email sub = p_email p) (loadSubscribers w) = None"
    using fresh by (force simp: findIndex_None_iff)
  have wr: "writable w"
  proof (rule ccontr)
    assume "\<not> writable w"
    then have "w' = console_error ''Error in subscription process:'' w"
      using run by (simp add: subscribe_unwritable)
    then have "new_events w w' = [ConsoleError ''Error in subscription process:'']"
      by (simp add: console_error_def new_events_def)
    with sent show False by simp
  qed
  from subscribe_fresh[OF none wr, of ts ms] run show ?thesis by simp
qed

theorem welcome_failure_not_propagated_witness:
  "fst (subscribeNewsletter 10 11 zoe_first (sample_world sample_store never_replies)) =
     Inr (new_subscription 10 11 zoe_first)
   \<and> subscribers_file (snd (subscribeNewsletter 10 11 zoe_first
        (sample_world sample_store never_replies))) =
     Some (sample_store @ [new_subscription 10 11 zoe_first])"
proof -
  let ?w = "sample_world sample_store never_replies"
  have a: "p_email zoe_first \<notin> email ` set (loadSubscribers ?w)"
    by (simp add: loadSubscribers_def sample_defs)
  have b: "subscribeNewsletter 10 11 zoe_first ?w =
       (fst (subscribeNewsletter 10 11 zoe_first ?w), snd (subscribeNewsletter 10 11 zoe_first ?w))"
    by simp
  have c: "MailSent ''zoe@example.com'' NoReply
       \<in> set (new_events ?w (snd (subscribeNewsletter 10 11 zoe_first ?w)))"
    by (simp add: model_defs sample_defs)
  have d: "failed NoReply" by simp
  from welcome_failure_not_propagated[OF a b c d] show ?thesis
    by (simp add: loadSubscribers_def sample_world_def)
qed

section \<open>Sending the newsletter\<close>

subsection \<open>The loop\<close>

text \<open>What one round of the loop adds to the trace, by the outcome of its send.\<close>

lemma send_one_trace:
  "trace (send_one s w) = trace w @ MailSent (email s) (smtp w (trace w) (email s)) #
     (case smtp w (trace w) (email s) of
        Delivered mid \<Rightarrow> [Slept 1000]
      | Rejected diag \<Rightarrow>
          [ConsoleError (''Failed to send newsletter to '' @ email s @ '':''),
           ConsoleError (''Error sending newsletter to '' @ email s @ '':'')]
      | NoReply \<Rightarrow>
          [ConsoleError (''Email sending timed out for '' @ email s),
           ConsoleError (''Error sending newsletter to '' @ email s @ '':'')])"
  by (simp add: send_one_def sendMail_def sleep_def console_error_def Let_def
      split: outcome.splits)

lemma send_one_round:
  "\<exists>evs. trace (send_one s w) = trace w @ evs \<and> sent_to evs = [email s]
     \<and> length (delivered_to evs) + length (failed_to evs) = 1
     \<and> (\<forall>a \<in> set (failed_to evs).
           ConsoleError (''Error sending newsletter to '' @ a @ '':'') \<in> set evs)"
  by (cases "smtp w (trace w) (email s)") (simp_all add: send_one_trace)

lemma send_loop_rounds:
  "\<exists>evs. trace (send_loop rs w) = trace w @ evs \<and> sent_to evs = map email rs
     \<and> length (delivered_to evs) + length (failed_to evs) = length rs
     \<and> (\<forall>a \<in> set (failed_to evs).
           ConsoleError (''Error sending newsletter to '' @ a @ '':'') \<in> set evs)"
proof (induction rs arbitrary: w)
  case Nil
  then show ?case by simp
next
  case (Cons s rest)
  obtain ev1 where ev1: "trace (send_one s w) = trace w @ ev1" "sent_to ev1 = [email s]"
    "length (delivered_to ev1) + length (failed_to ev1) = 1"
    "\<forall>a \<in> set (failed_to ev1). ConsoleError (''Error sending newsletter to '' @ a @ '':'') \<in> set ev1"
    using send_one_round[of s w] by blast
  obtain evs where evs: "trace (send_loop rest (send_one s w)) = trace (send_one s w) @ evs"
    "sent_to evs = map email rest"
    "length (delivered_to evs) + length (failed_to evs) = length rest"
    "\<forall>a \<in> set (failed_to evs). ConsoleError (''Error sending newsletter to '' @ a @ '':'') \<in> set evs"
    using Cons.IH[of "send_one s w"] by blast
  have "trace (send_loop (s # rest) w) = trace w @ (ev1 @ evs)"
    using ev1(1) evs(1) by simp
  moreover have "sent_to (ev1 @ evs) = map email (s # rest)"
    using ev1(2) evs(2) by (simp add: sent_to_append)
  moreover have "length (delivered_to (ev1 @ evs)) + length (failed_to (ev1 @ evs)) = length (s # rest)"
    using ev1(3) evs(3) by (simp add: delivered_to_append failed_to_append)
  moreover have "\<forall>a \<in> set (failed_to (ev1 @ evs)).
      ConsoleError (''Error sending newsletter to '' @ a @ '':'') \<in> set (ev1 @ evs)"
    using ev1(4) evs(4) by (auto simp: failed_to_append)
  ultimately show ?case by blast
qed

lemma sendNewsletter_none: "requested sp w = [] \<Longrightarrow> sendNewsletter sp w = (True, w)"
  by (simp add: sendNewsletter_def)

lemma sendNewsletter_live:
  assumes "requested sp w \<noteq> []" "test_mode w \<noteq> Some ''true''" "digest w = Some html"
    "transporter_ok w"
  shows "sendNewsletter sp w = (True, send_loop (requested sp w) w)"
  using assms by (simp add: sendNewsletter_def Let_def)

lemma sendNewsletter_redirected:
  assumes "requested sp w \<noteq> []" "test_mode w = Some ''true''" "test_recipient w = Some r"
    "r \<noteq> []" "digest w = Some html" "transporter_ok w"
  shows "sendNewsletter sp w = (True, send_loop [test_recipient_object r] w)"
  using assms by (simp add: sendNewsletter_def Let_def)

lemma sendNewsletter_unprepared:
  assumes "digest w = None \<or> \<not> transporter_ok w"
  shows "sent_to (new_events w (snd (sendNewsletter sp w))) = []"
  using assms
  by (auto simp: sendNewsletter_def Let_def console_error_def new_events_def
      split: option.splits)

text \<open>The value returned does not depend on the transport.\<close>

lemma requested_transport [simp]: "requested sp (w\<lparr>smtp := f\<rparr>) = requested sp w"
  by (simp add: requested_def getNewsletterSubscribers_def loadSubscribers_def)

lemma sendNewsletter_result_transport:
  "fst (sendNewsletter sp (w\<lparr>smtp := f\<rparr>)) = fst (sendNewsletter sp w)"
  by (simp add: sendNewsletter_def Let_def console_error_def emit_def split: option.splits)

subsection \<open>Failures do not stop the run\<close>

text \<open>
  C2. Outside test mode, once the digest is rendered and the transporter exists,
  \<^verbatim>\<open>sendNewsletter\<close> hands a message for every requested subscriber to the transport,
  in order, and answers \<^verbatim>\<open>true\<close>, however the transport settles each send: a rejected
  or timed-out send stops neither the sends after it nor the run.
\<close>

theorem batch_continues_after_failure:
  assumes "digest w = Some html" and "transporter_ok w" and "test_mode w \<noteq> Some ''true''"
  shows "fst (sendNewsletter sp w) = True
       \<and> sent_to (new_events w (snd (sendNewsletter sp w))) = map email (requested sp w)"
proof (cases "requested sp w = []")
  case True
  then show ?thesis by (simp add: sendNewsletter_none)
next
  case False
  then have run: "sendNewsletter sp w = (True, send_loop (requested sp w) w)"
    using assms by (intro sendNewsletter_live) simp_all
  obtain evs where "trace (send_loop (requested sp w) w) = trace w @ evs"
    "sent_to evs = map email (requested sp w)"
    using send_loop_rounds[of "requested sp w" w] by blast
  with run show ?thesis by (simp add: new_events_extend)
qed

theorem batch_continues_after_failure_witness:
  "fst (sendNewsletter None (sample_world sample_store (rejects ''carol@example.com''))) = True
   \<and> sent_to (new_events (sample_world sample_store (rejects ''carol@example.com''))
        (snd (sendNewsletter None (sample_world sample_store (rejects ''carol@example.com''))))) =
     [''alice@example.com'', ''bob@example.com'', ''carol@example.com'', ''dave@example.com'',
      ''erin@example.com'']"
proof -
  let ?w = "sample_world sample_store (rejects ''carol@example.com'')"
  have a: "digest ?w = Some ''<html>''" by (simp add: sample_world_def)
  have b: "transporter_ok ?w" by (simp add: sample_world_def)
  have c: "test_mode ?w \<noteq> Some ''true''" by (simp add: sample_world_def)
  from batch_continues_after_failure[OF a b c, of None] show ?thesis
    by (simp add: requested_def getNewsletterSubscribers_def loadSubscribers_def sample_defs)
qed

subsection \<open>Test mode\<close>

text \<open>
  C1, as the claim states it, fails on an empty request: with test mode on and a test
  recipient configured, a store without active subscribers makes \<^verbatim>\<open>sendNewsletter\<close>
  return before the test-mode switch is read, and nothing is sent.
\<close>

theorem test_mode_zero_subscribers_counterexample:
  "test_mode (test_world []) = Some ''true''
   \<and> test_recipient (test_world []) = Some ''qa@example.com''
   \<and> getNewsletterSubscribers True (test_world []) = []
   \<and> sent_to (new_events (test_world []) (snd (sendNewsletter None (test_world [])))) = []"
  by (simp add: model_defs sample_defs)

text \<open>
  C1, amended. With test mode on and a test recipient configured, \<^verbatim>\<open>sendNewsletter\<close>
  performs exactly one transport send, addressed to the test recipient, whenever at
  least one active subscriber was requested and the digest and the transporter could
  be prepared, however many subscribers were requested; it performs no send when no
  subscriber was requested or the preparation threw.
\<close>

theorem test_mode_single_send:
  assumes "test_mode w = Some ''true''" and "test_recipient w = Some r" and "r \<noteq> []"
  shows "sent_to (new_events w (snd (sendNewsletter sp w))) =
           (if requested sp w = [] \<or> digest w = None \<or> \<not> transporter_ok w then [] else [r])"
proof (cases "requested sp w = []")
  case True
  then show ?thesis by (simp add: sendNewsletter_none)
next
  case False
  show ?thesis
  proof (cases "digest w = None \<or> \<not> transporter_ok w")
    case True
    then show ?thesis using sendNewsletter_unprepared[of w sp] by auto
  next
    case ready: False
    then obtain html where "digest w = Some html" "transporter_ok w" by auto
    with False assms have run: "sendNewsletter sp w = (True, send_loop [test_recipient_object r] w)"
      by (intro sendNewsletter_redirected) simp_all
    obtain evs where "trace (send_loop [test_recipient_object r] w) = trace w @ evs"
      "sent_to evs = map email [test_recipient_object r]"
      using send_loop_rounds[of "[test_recipient_object r]" w] by blast
    with run False ready show ?thesis
      by (simp add: new_events_extend test_recipient_object_def)
  qed
qed

theorem test_mode_single_send_witness:
  "sent_to (new_events (test_world sample_store) (snd (sendNewsletter None (test_world sample_store))))
     = [''qa@example.com'']"
proof -
  let ?w = "test_world sample_store"
  have a: "test_mode ?w = Some ''true''" by (simp add: sample_defs)
  have b: "test_recipient ?w = Some ''qa@example.com''" by (simp add: sample_defs)
  have c: "''qa@example.com'' \<noteq> []" by simp
  from test_mode_single_send[OF a b c, of None] show ?thesis
    by (simp add: requested_def getNewsletterSubscribers_def loadSubscribers_def sample_defs)
qed

subsection \<open>What the caller learns\<close>

text \<open>
  C3, as the claim states it, fails: the value returned carries no counts. A run over
  five recipients in which the third is rejected and a run in which all five are
  delivered return the same value.
\<close>

theorem batch_result_counts_counterexample:
  "fst (sendNewsletter None (sample_world sample_store (rejects ''carol@example.com''))) =
     fst (sendNewsletter None (sample_world sample_store always_delivers))
   \<and> failed_to (new_events (sample_world sample_store (rejects ''carol@example.com''))
        (snd (sendNewsletter None (sample_world sample_store (rejects ''carol@example.com''))))) =
     [''carol@example.com'']
   \<and> failed_to (new_events (sample_world sample_store always_delivers)
        (snd (sendNewsletter None (sample_world sample_store always_delivers)))) = []"
  by (simp add: model_defs sample_defs)

text \<open>
  C3, amended. Whenever the digest is rendered and the transporter exists,
  \<^verbatim>\<open>sendNewsletter\<close> returns only \<^verbatim>\<open>true\<close>, and the same value for every behaviour of
  the transport: no count and no detail is returned. What happened is in the trace
  alone. The recipients of the loop are the requested subscribers outside test mode
  and the test recipient, if one is configured, in test mode; each of them is handed
  to the transport exactly once, in order, and every address whose send failed has
  its \<^verbatim>\<open>console.error\<close> line.
\<close>

theorem batch_result_is_only_true:
  assumes "digest w = Some html" and "transporter_ok w"
  shows "fst (sendNewsletter sp w) = True
       \<and> fst (sendNewsletter sp (w\<lparr>smtp := f\<rparr>)) = fst (sendNewsletter sp w)
       \<and> sent_to (new_events w (snd (sendNewsletter sp w))) =
           (if requested sp w = [] then []
            else if test_mode w = Some ''true''
                 then (case test_recipient w of
                         None \<Rightarrow> []
                       | Some r \<Rightarrow> if r \<noteq> [] then [r] else [])
                 else map email (requested sp w))
       \<and> (\<forall>a \<in> set (failed_to (new_events w (snd (sendNewsletter sp w)))).
             ConsoleError (''Error sending newsletter to '' @ a @ '':'')
               \<in> set (new_events w (snd (sendNewsletter sp w))))"
proof -
  let ?rcpts = "if requested sp w = [] then []
            else if test_mode w = Some ''true''
                 then (case test_recipient w of
                         None \<Rightarrow> []
                       | Some r \<Rightarrow> if r \<noteq> [] then [r] else [])
                 else map email (requested sp w)"
  \<comment> \<open>every path of such a run is the loop over some list, possibly empty\<close>
  have "\<exists>rs. sendNewsletter sp w = (True, send_loop rs w) \<and> map email rs = ?rcpts"
  proof (cases "requested sp w = []")
    case True
    then have "sendNewsletter sp w = (True, send_loop [] w)"
      by (simp add: sendNewsletter_none)
    with True show ?thesis by auto
  next
    case False
    show ?thesis
    proof (cases "test_mode w = Some ''true''")
      case off: False
      with False assms have "sendNewsletter sp w = (True, send_loop (requested sp w) w)"
        by (intro sendNewsletter_live) simp_all
      with False off show ?thesis by auto
    next
      case on: True
      show ?thesis
      proof (cases "\<exists>r. test_recipient w = Some r \<and> r \<noteq> []")
        case True
        then obtain r where r: "test_recipient w = Some r" "r \<noteq> []" by blast
        with False on assms
        have "sendNewsletter sp w = (True, send_loop [test_recipient_object r] w)"
          by (intro sendNewsletter_redirected) simp_all
        moreover have "map email [test_recipient_object r] = ?rcpts"
          using False on r by (simp add: test_recipient_object_def)
        ultimately show ?thesis by blast
      next
        case none: False
        with False on have "sendNewsletter sp w = (True, send_loop [] w)"
          by (auto simp: sendNewsletter_def Let_def split: option.splits)
        moreover have "map email [] = ?rcpts"
          using False on none by (auto split: option.splits)
        ultimately show ?thesis by blast
      qed
    qed
  qed
  then obtain rs where run: "sendNewsletter sp w = (True, send_loop rs w)"
    and rs: "map email rs = ?rcpts" by blast
  obtain evs where evs: "trace (send_loop rs w) = trace w @ evs"
    "sent_to evs = map email rs"
    "\<forall>a \<in> set (failed_to evs). ConsoleError (''Error sending newsletter to '' @ a @ '':'') \<in> set evs"
    using send_loop_rounds[of rs w] by blast
  from evs(1) run have new: "new_events w (snd (sendNewsletter sp w)) = evs"
    by (simp add: new_events_extend)
  have same: "fst (sendNewsletter sp (w\<lparr>smtp := f\<rparr>)) = fst (sendNewsletter sp w)"
    by (rule sendNewsletter_result_transport)
  from run new evs(2,3) rs same show ?thesis by simp
qed

theorem batch_result_is_only_true_witness:
  "fst (sendNewsletter None (sample_world sample_store (rejects ''carol@example.com''))) = True
   \<and> fst (sendNewsletter None (sample_world sample_store always_delivers)) = True
   \<and> sent_to (new_events (sample_world sample_store (rejects ''carol@example.com''))
        (snd (sendNewsletter None (sample_world sample_store (rejects ''carol@example.com''))))) =
     [''alice@example.com'', ''bob@example.com'', ''carol@example.com'', ''dave@example.com'',
      ''erin@example.com'']
   \<and> delivered_to (new_events (sample_world sample_store (rejects ''carol@example.com''))
        (snd (sendNewsletter None (sample_world sample_store (rejects ''carol@example.com''))))) =
     [''alice@example.com'', ''bob@example.com'', ''dave@example.com'', ''erin@example.com'']
   \<and> failed_to (new_events (sample_world sample_store (rejects ''carol@example.com''))
        (snd (sendNewsletter None (sample_world sample_store (rejects ''carol@example.com''))))) =
     [''carol@example.com'']
   \<and> ConsoleError ''Error sending newsletter to carol@example.com:''
        \<in> set (new_events (sample_world sample_store (rejects ''carol@example.com''))
        (snd (sendNewsletter None (sample_world sample_store (rejects ''carol@example.com'')))))"
proof -
  let ?w = "sample_world sample_store (rejects ''carol@example.com'')"
  have same: "?w\<lparr>smtp := always_delivers\<rparr> = sample_world sample_store always_delivers"
    by (simp add: sample_world_def)
  have a: "digest ?w = Some ''<html>''" by (simp add: sample_world_def)
  have b: "transporter_ok ?w" by (simp add: sample_world_def)
  have fails: "failed_to (new_events ?w (snd (sendNewsletter None ?w))) = [''carol@example.com'']"
    by (simp add: model_defs sample_defs)
  have delivers: "delivered_to (new_events ?w (snd (sendNewsletter None ?w))) =
      [''alice@example.com'', ''bob@example.com'', ''dave@example.com'', ''erin@example.com'']"
    by (simp add: model_defs sample_defs)
  have rq: "map email (requested None ?w) =
      [''alice@example.com'', ''bob@example.com'', ''carol@example.com'', ''dave@example.com'',
       ''erin@example.com'']"
    by (simp add: requested_def getNewsletterSubscribers_def loadSubscribers_def sample_defs)
  have nonempty: "requested None ?w \<noteq> []" using rq by auto
  have off: "test_mode ?w \<noteq> Some ''true''" by (simp add: sample_world_def)
  from batch_result_is_only_true[OF a b, of None always_delivers]
  show ?thesis
    unfolding same using fails delivers rq nonempty off by simp
qed

subsection \<open>Pacing\<close>

text \<open>
  C4. The pause of one second follows a send only when the send succeeded. With two
  subscribers, the first of which the transport rejects, the second send follows the
  two error lines directly; the only pause of the run is after the second send.
\<close>

theorem no_pause_after_failed_send:
  "new_events (sample_world pair_store (rejects ''alice@example.com''))
     (snd (sendNewsletter None (sample_world pair_store (rejects ''alice@example.com'')))) =
     [MailSent ''alice@example.com'' (Rejected ''550 mailbox unavailable''),
      ConsoleError ''Failed to send newsletter to alice@example.com:'',
      ConsoleError ''Error sending newsletter to alice@example.com:'',
      MailSent ''bob@example.com'' (Delivered ''<1@smtp>''),
      Slept 1000]"
  by (simp add: model_defs sample_defs)

end
